theory Spec2Isabelle
  imports Complex_Main
begin

section \<open>JavaScript values, exceptions and the operators the client uses\<close>

text \<open>
  The client is untyped JavaScript over decoded JSON. A value is one of the JSON shapes or
  \<open>undefined\<close> (what a missing property reads as). Numbers are exact rationals here:
  the rounding of IEEE doubles is not part of the model. A string is a list of characters.
  An object is the list of its own properties, each key occurring once.
\<close>

datatype jsval =
    Undefined
  | Null
  | Bool bool
  | Num rat
  | Str string
  | Arr "jsval list"
  | Obj "(string \<times> jsval) list"

text \<open>
  What can be thrown. \<open>Error v\<close> is \<open>new Error(v)\<close>, carrying the constructor's argument
  (for a string argument, the message itself). \<open>SyntaxError\<close> and \<open>TypeError\<close> are raised
  by the platform; their engine-specific messages are left out.
\<close>

datatype js_exn = Error jsval | SyntaxError | TypeError

type_synonym outcome = "js_exn + jsval"

text \<open>Truthiness, as \<open>if (v)\<close>, \<open>v && w\<close> and \<open>v || w\<close> test it.\<close>

fun truthy :: "jsval \<Rightarrow> bool" where
  "truthy Undefined = False"
| "truthy Null = False"
| "truthy (Bool b) = b"
| "truthy (Num r) = (r \<noteq> 0)"
| "truthy (Str s) = (s \<noteq> [])"
| "truthy (Arr _) = True"
| "truthy (Obj _) = True"

definition js_or :: "jsval \<Rightarrow> jsval \<Rightarrow> jsval" where
  "js_or a b = (if truthy a then a else b)"

text \<open>
  Property read \<open>v.k\<close> for the property names this program reads (\<open>message\<close>,
  \<open>detail\<close>, \<open>success\<close>, \<open>data\<close>, \<open>error\<close>): on \<open>null\<close> and
  \<open>undefined\<close> it throws a TypeError, on an object it is the property or
  \<open>undefined\<close>, on every other value it is \<open>undefined\<close>.
\<close>

fun get_prop :: "jsval \<Rightarrow> string \<Rightarrow> outcome" where
  "get_prop Undefined k = Inl TypeError"
| "get_prop Null k = Inl TypeError"
| "get_prop (Obj kvs) k = Inr (case map_of kvs k of None \<Rightarrow> Undefined | Some v \<Rightarrow> v)"
| "get_prop v k = Inr Undefined"

text \<open>\<open>try { b } catch { h }\<close>: the handler runs on whatever the block throws.\<close>

definition try_catch :: "('e + 'a) \<Rightarrow> ('e \<Rightarrow> 'e + 'a) \<Rightarrow> 'e + 'a" where
  "try_catch b h = (case b of Inl e \<Rightarrow> h e | Inr v \<Rightarrow> Inr v)"

text \<open>\<open>s.includes(t)\<close>: \<open>t\<close> occurs in \<open>s\<close> as a contiguous substring.\<close>

fun starts_with :: "string \<Rightarrow> string \<Rightarrow> bool" where
  "starts_with s [] = True"
| "starts_with [] (c # t) = False"
| "starts_with (d # s) (c # t) = (d = c \<and> starts_with s t)"

fun str_includes :: "string \<Rightarrow> string \<Rightarrow> bool" where
  "str_includes [] t = (t = [])"
| "str_includes (d # s) t = (starts_with (d # s) t \<or> str_includes s t)"

text \<open>A non-negative integer in a template literal: its decimal digits.\<close>

definition digit :: "nat \<Rightarrow> char" where
  "digit d = ''0123456789'' ! d"

fun string_of_nat :: "nat \<Rightarrow> string" where
  "string_of_nat n =
     (if n < 10 then [digit n] else string_of_nat (n div 10) @ [digit (n mod 10)])"

declare string_of_nat.simps [simp del]

section \<open>The response resolver (handleResponse in services/api.js and services/sectorApi.js)\<close>

text \<open>
  What \<open>handleResponse\<close> reads of a fetch Response: the status and status text, the
  \<open>content-type\<close> header (\<open>headers.get\<close> gives \<open>null\<close> when it is absent) and the
  body. \<open>body = None\<close> is a null body (a 204 or 205 response).
\<close>

record response =
  status :: nat
  statusText :: string
  contentType :: "string option"
  body :: "string option"

definition ok :: "response \<Rightarrow> bool" where
  "ok r = (200 \<le> status r \<and> status r \<le> 299)"

text \<open>What the resolver does to the outside, in order.\<close>

datatype event = ReadJson | ReadText | Warn string

text \<open>
  \<open>response.json()\<close> and \<open>response.text()\<close> both consume the body. A body that is
  not null can be consumed once: a later read is rejected with a TypeError. A null body
  reads as the empty text every time. \<open>evs\<close> is what happened so far.
\<close>

definition consume_body :: "response \<Rightarrow> event list \<Rightarrow> js_exn + string" where
  "consume_body r evs =
     (case body r of
        None \<Rightarrow> Inr []
      | Some b \<Rightarrow>
          if ReadJson \<in> set evs \<or> ReadText \<in> set evs then Inl TypeError else Inr b)"

text \<open>
  \<open>JSON_parse\<close> is the platform's \<open>JSON.parse\<close>, a parameter of the model:
  \<open>None\<close> where it throws a SyntaxError.
\<close>

definition response_json ::
  "(string \<Rightarrow> jsval option) \<Rightarrow> response \<Rightarrow> event list \<Rightarrow> event list \<times> outcome" where
  "response_json JSON_parse r evs =
     (evs @ [ReadJson],
      case consume_body r evs of
        Inl e \<Rightarrow> Inl e
      | Inr t \<Rightarrow> (case JSON_parse t of None \<Rightarrow> Inl SyntaxError | Some v \<Rightarrow> Inr v))"

definition response_text ::
  "response \<Rightarrow> event list \<Rightarrow> event list \<times> (js_exn + string)" where
  "response_text r evs = (evs @ [ReadText], consume_body r evs)"

text \<open>\<open>contentType && contentType.includes(t)\<close>\<close>

definition contentType_includes :: "response \<Rightarrow> string \<Rightarrow> bool" where
  "contentType_includes r t =
     (case contentType r of None \<Rightarrow> False | Some c \<Rightarrow> c \<noteq> [] \<and> str_includes c t)"

text \<open>
  The block of the inner \<open>try\<close> on a failed response:
  \<^verbatim>\<open>const errorData = await response.json();
  throw new Error(errorData.message || errorData.detail || `HTTP ${response.status}`);\<close>
\<close>

definition error_payload_block ::
  "(string \<Rightarrow> jsval option) \<Rightarrow> response \<Rightarrow> event list \<Rightarrow> event list \<times> outcome" where
  "error_payload_block JSON_parse r evs =
     (case response_json JSON_parse r evs of
        (evs', Inl e) \<Rightarrow> (evs', Inl e)
      | (evs', Inr errorData) \<Rightarrow>
          (evs',
           case get_prop errorData ''message'' of
             Inl e \<Rightarrow> Inl e
           | Inr m \<Rightarrow>
               if truthy m then Inl (Error m)
               else (case get_prop errorData ''detail'' of
                       Inl e \<Rightarrow> Inl e
                     | Inr d \<Rightarrow>
                         Inl (Error (js_or d (Str (''HTTP '' @ string_of_nat (status r))))))))"

text \<open>
  \<open>handleResponse\<close>, statement by statement. The \<open>catch\<close> of the inner \<open>try\<close> binds
  no variable and throws the status line whatever the block threw.
\<close>

definition handleResponse ::
  "(string \<Rightarrow> jsval option) \<Rightarrow> response \<Rightarrow> event list \<times> outcome" where
  "handleResponse JSON_parse r =
     (if \<not> ok r then
        if contentType_includes r ''text/html'' then
          ([], Inl (Error (Str (''Server error: '' @ string_of_nat (status r) @ '' ''
                                  @ statusText r))))
        else
          (case error_payload_block JSON_parse r [] of
             (evs, b) \<Rightarrow>
               (evs, try_catch b
                  (\<lambda>_. Inl (Error (Str (''HTTP '' @ string_of_nat (status r) @ '': ''
                                           @ statusText r))))))
      else
        let evs0 = (case contentType r of
                      None \<Rightarrow> []
                    | Some c \<Rightarrow>
                        if c \<noteq> [] \<and> \<not> str_includes c ''application/json'' then [Warn c]
                        else [])
        in (case response_json JSON_parse r evs0 of
              (evs1, Inr v) \<Rightarrow> (evs1, Inr v)
            | (evs1, Inl jsonError) \<Rightarrow>
                (case response_text r evs1 of
                   (evs2, Inl e) \<Rightarrow> (evs2, Inl e)
                 | (evs2, Inr raw) \<Rightarrow>
                     (evs2, Inl (Error (Str (''Invalid JSON response: '' @ take 100 raw
                                              @ ''...'')))))))"

section \<open>The workflow coordinator (pages/Dashboard.jsx)\<close>

definition API_URL :: string where
  "API_URL = ''http://localhost:8000''"

text \<open>\<open>getChartIframe(uploadId = null)\<close>: a string constructor, no request.\<close>

definition getChartIframe :: "string option \<Rightarrow> string" where
  "getChartIframe uploadId =
     (case uploadId of
        None \<Rightarrow> API_URL @ ''/chart-iframe''
      | Some u \<Rightarrow>
          if u \<noteq> [] then API_URL @ ''/chart-iframe?upload_id='' @ u
          else API_URL @ ''/chart-iframe'')"

text \<open>The selected File object; the dashboard reads its name only.\<close>

record file_handle =
  name :: string

text \<open>The component's state: one field for each \<open>useState\<close>, with its initial value.\<close>

record dashboard =
  "file" :: "file_handle option"
  fileName :: string
  uploading :: bool
  processing :: bool
  error :: jsval
  results :: jsval
  signals :: jsval
  chartUrl :: string

definition dashboard_init :: dashboard where
  "dashboard_init =
     \<lparr>file = None, fileName = [], uploading = False, processing = False, error = Str [],
      results = Null, signals = Null, chartUrl = []\<rparr>"

text \<open>
  How each call of the transport client settles during one run: resolved with a value
  (\<open>Inr\<close>) or rejected (\<open>Inl\<close>). A call that the run never reaches is not consulted.
\<close>

record api =
  uploadCSV :: "file_handle \<Rightarrow> outcome"
  processCSV :: outcome
  getResults :: outcome
  getSignals :: outcome

text \<open>\<open>handleFileChange\<close>; the argument is \<open>e.target.files[0]\<close>.\<close>

definition handleFileChange :: "file_handle option \<Rightarrow> dashboard \<Rightarrow> dashboard" where
  "handleFileChange selectedFile s =
     (case selectedFile of
        None \<Rightarrow> s
      | Some f \<Rightarrow> s\<lparr>file := Some f, fileName := name f\<rparr>)"

text \<open>
  \<open>handleProcess\<close>. The setters run only after both fetches have resolved; the
  \<open>catch\<close> sets a fixed message and the \<open>finally\<close> clears the flag.
\<close>

definition handleProcess :: "api \<Rightarrow> dashboard \<Rightarrow> dashboard" where
  "handleProcess a s =
     (let s1 = s\<lparr>processing := True, error := Str []\<rparr>;
          caught = s1\<lparr>error := Str ''An error occurred during processing''\<rparr>;
          s2 =
            (case processCSV a of
               Inl err \<Rightarrow> caught
             | Inr result \<Rightarrow>
                 (case get_prop result ''success'' of
                    Inl err \<Rightarrow> caught
                  | Inr success \<Rightarrow>
                      if truthy success then
                        (case getResults a of
                           Inl err \<Rightarrow> caught
                         | Inr resultsData \<Rightarrow>
                             (case getSignals a of
                                Inl err \<Rightarrow> caught
                              | Inr signalsData \<Rightarrow>
                                  s1\<lparr>results := resultsData, signals := signalsData,
                                      chartUrl := getChartIframe None\<rparr>))
                      else
                        (case get_prop result ''error'' of
                           Inl err \<Rightarrow> caught
                         | Inr e \<Rightarrow> s1\<lparr>error := js_or e (Str ''Processing failed'')\<rparr>)))
      in s2\<lparr>processing := False\<rparr>)"

text \<open>\<open>handleUpload\<close>, which runs \<open>handleProcess\<close> inside its own \<open>try\<close>.\<close>

definition handleUpload :: "api \<Rightarrow> dashboard \<Rightarrow> dashboard" where
  "handleUpload a s =
     (case file s of
        None \<Rightarrow> s\<lparr>error := Str ''Please select a file to upload''\<rparr>
      | Some f \<Rightarrow>
          let s1 = s\<lparr>error := Str [], uploading := True\<rparr>;
              caught = s1\<lparr>error := Str ''An error occurred during upload''\<rparr>;
              s2 =
                (case uploadCSV a f of
                   Inl err \<Rightarrow> caught
                 | Inr result \<Rightarrow>
                     (case get_prop result ''success'' of
                        Inl err \<Rightarrow> caught
                      | Inr success \<Rightarrow>
                          if truthy success then handleProcess a s1
                          else
                            (case get_prop result ''message'' of
                               Inl err \<Rightarrow> caught
                             | Inr m \<Rightarrow> s1\<lparr>error := js_or m (Str ''Upload failed'')\<rparr>)))
          in s2\<lparr>uploading := False\<rparr>)"

text \<open>
  The stage a state shows, read off the render function: the button label is
  \<open>uploading ? 'Uploading...' : processing ? 'Processing...' : ...\<close>, the error banner
  is \<open>error && ...\<close> and the results section is \<open>results && ...\<close>.
\<close>

datatype stage = Idle | Uploading | Processing | Ready | Failed

definition stage_of :: "dashboard \<Rightarrow> stage" where
  "stage_of s =
     (if uploading s then Uploading
      else if processing s then Processing
      else if truthy (error s) then Failed
      else if truthy (results s) then Ready
      else Idle)"

section \<open>The session store (context/AuthContext.jsx)\<close>

record auth =
  user :: jsval
  loading :: bool

text \<open>
  \<open>logout\<close>; the argument is how \<open>api.logout()\<close> settles. The result is the new
  state and the returned flag.
\<close>

definition logout :: "outcome \<Rightarrow> auth \<Rightarrow> auth \<times> bool" where
  "logout call s =
     (case call of
        Inr _ \<Rightarrow> (s\<lparr>user := Null\<rparr>, True)
      | Inl err \<Rightarrow> (s, False))"

section \<open>The sector aggregator (components/SectorPerformance.jsx)\<close>

record sector_panel =
  period :: string
  sectorData :: jsval
  summary :: jsval
  loading :: bool
  error :: jsval

definition sector_panel_init :: sector_panel where
  "sector_panel_init =
     \<lparr>period = ''1d'', sectorData = Arr [], summary = Null, loading = False, error = Str []\<rparr>"

text \<open>
  \<open>fetchData\<close>; the arguments are how \<open>fetchSectorData\<close> and \<open>fetchSectorSummary\<close>
  settle. \<open>Promise.all\<close> rejects as soon as one of them does.
\<close>

definition fetchData :: "outcome \<Rightarrow> outcome \<Rightarrow> sector_panel \<Rightarrow> sector_panel" where
  "fetchData dataCall summaryCall s =
     (let s1 = s\<lparr>loading := True, error := Str []\<rparr>;
          caught = s1\<lparr>error := Str ''Failed to fetch sector data''\<rparr>;
          s2 =
            (case (dataCall, summaryCall) of
               (Inr dataResponse, Inr summaryResponse) \<Rightarrow>
                 (case get_prop dataResponse ''success'' of
                    Inl err \<Rightarrow> caught
                  | Inr success \<Rightarrow>
                      (case (if truthy success
                             then (case get_prop dataResponse ''data'' of
                                     Inl err \<Rightarrow> Inl err
                                   | Inr d \<Rightarrow> Inr (s1\<lparr>sectorData := d\<rparr>))
                             else Inr s1) of
                         Inl err \<Rightarrow> caught
                       | Inr s3 \<Rightarrow>
                           if truthy summaryResponse then s3\<lparr>summary := summaryResponse\<rparr>
                           else s3))
             | _ \<Rightarrow> caught)
      in s2\<lparr>loading := False\<rparr>)"

text \<open>
  A JavaScript number as far as the bar scaling needs it: a finite value, an infinity or
  NaN. Finite values are exact rationals.
\<close>

datatype jsnum = Fin rat | PosInf | NegInf | NaN

fun Math_abs :: "jsnum \<Rightarrow> jsnum" where
  "Math_abs (Fin x) = Fin \<bar>x\<bar>"
| "Math_abs PosInf = PosInf"
| "Math_abs NegInf = PosInf"
| "Math_abs NaN = NaN"

fun max2 :: "jsnum \<Rightarrow> jsnum \<Rightarrow> jsnum" where
  "max2 NaN y = NaN"
| "max2 x NaN = NaN"
| "max2 PosInf y = PosInf"
| "max2 x PosInf = PosInf"
| "max2 NegInf y = y"
| "max2 x NegInf = x"
| "max2 (Fin x) (Fin y) = Fin (max x y)"

fun min2 :: "jsnum \<Rightarrow> jsnum \<Rightarrow> jsnum" where
  "min2 NaN y = NaN"
| "min2 x NaN = NaN"
| "min2 NegInf y = NegInf"
| "min2 x NegInf = NegInf"
| "min2 PosInf y = y"
| "min2 x PosInf = x"
| "min2 (Fin x) (Fin y) = Fin (min x y)"

text \<open>\<open>Math.max(...xs)\<close>: \<open>-Infinity\<close> for no argument.\<close>

definition Math_max :: "jsnum list \<Rightarrow> jsnum" where
  "Math_max xs = foldl max2 NegInf xs"

text \<open>
  Division and multiplication. The operands here are never negative zero, so the sign of
  a zero is not tracked.
\<close>

fun js_div :: "jsnum \<Rightarrow> jsnum \<Rightarrow> jsnum" where
  "js_div (Fin x) (Fin y) =
     (if y = 0 then (if x = 0 then NaN else if 0 < x then PosInf else NegInf)
      else Fin (x / y))"
| "js_div (Fin x) PosInf = Fin 0"
| "js_div (Fin x) NegInf = Fin 0"
| "js_div PosInf (Fin y) = (if 0 \<le> y then PosInf else NegInf)"
| "js_div NegInf (Fin y) = (if 0 \<le> y then NegInf else PosInf)"
| "js_div PosInf PosInf = NaN"
| "js_div PosInf NegInf = NaN"
| "js_div NegInf PosInf = NaN"
| "js_div NegInf NegInf = NaN"
| "js_div NaN y = NaN"
| "js_div x NaN = NaN"

fun js_mul :: "jsnum \<Rightarrow> jsnum \<Rightarrow> jsnum" where
  "js_mul (Fin x) (Fin y) = Fin (x * y)"
| "js_mul NaN y = NaN"
| "js_mul x NaN = NaN"
| "js_mul (Fin x) PosInf = (if x = 0 then NaN else if 0 < x then PosInf else NegInf)"
| "js_mul (Fin x) NegInf = (if x = 0 then NaN else if 0 < x then NegInf else PosInf)"
| "js_mul PosInf (Fin y) = (if y = 0 then NaN else if 0 < y then PosInf else NegInf)"
| "js_mul NegInf (Fin y) = (if y = 0 then NaN else if 0 < y then NegInf else PosInf)"
| "js_mul PosInf PosInf = PosInf"
| "js_mul NegInf NegInf = PosInf"
| "js_mul PosInf NegInf = NegInf"
| "js_mul NegInf PosInf = NegInf"

text \<open>An entry of the fetched series, as the render function reads it.\<close>

record sector_entry =
  sector :: string
  performance :: rat

text \<open>
  \<^verbatim>\<open>const maxPerformance = sectorData.length > 0
    ? Math.max(...sectorData.map(item => Math.abs(item.performance)))
    : 5;\<close>
\<close>

definition maxPerformance :: "sector_entry list \<Rightarrow> jsnum" where
  "maxPerformance entries =
     (if length entries > 0
      then Math_max (map (\<lambda>item. Math_abs (Fin (performance item))) entries)
      else Fin 5)"

text \<open>
  The style of one bar: the number in \<open>width\<close> (printed with a percent sign) and
  \<open>marginLeft\<close>, which is \<open>'auto'\<close> (right-aligned) or \<open>'0'\<close>.
\<close>

definition bar_width :: "sector_entry list \<Rightarrow> sector_entry \<Rightarrow> jsnum" where
  "bar_width entries item =
     min2 (js_mul (js_div (Math_abs (Fin (performance item))) (maxPerformance entries))
             (Fin 100))
          (Fin 100)"

definition bar_marginLeft :: "sector_entry \<Rightarrow> string" where
  "bar_marginLeft item = (if performance item < 0 then ''auto'' else ''0'')"

text \<open>\<open>handlePeriodChange\<close>; the effect on \<open>period\<close> then runs \<open>fetchData\<close>.\<close>

definition handlePeriodChange :: "string \<Rightarrow> sector_panel \<Rightarrow> sector_panel" where
  "handlePeriodChange v s = s\<lparr>period := v\<rparr>"

section \<open>Vocabulary for the properties\<close>

text \<open>A call resolved (it did not reject).\<close>

definition resolved :: "outcome \<Rightarrow> bool" where
  "resolved c = (case c of Inl _ \<Rightarrow> False | Inr _ \<Rightarrow> True)"

text \<open>A call resolved with a value whose \<open>success\<close> property is truthy.\<close>

definition reports_success :: "outcome \<Rightarrow> bool" where
  "reports_success c =
     (case c of
        Inl _ \<Rightarrow> False
      | Inr v \<Rightarrow> (case get_prop v ''success'' of Inl _ \<Rightarrow> False | Inr t \<Rightarrow> truthy t))"

section \<open>Sample inputs\<close>

definition dquote :: char where
  "dquote = CHR 0x22"

text \<open>The JSON text of an object whose \<open>message\<close> property is the string \<open>Bad file\<close>.\<close>

definition bad_file_body :: string where
  "bad_file_body =
     ''{'' @ [dquote] @ ''message'' @ [dquote] @ '':'' @ [dquote] @ ''Bad file'' @ [dquote] @ ''}''"

text \<open>
  \<open>JSON.parse\<close> on the texts of the samples below: the error body decodes to its
  object; \<open>upload complete\<close>, the markup page and the empty text are not JSON.
\<close>

definition sample_parse :: "string \<Rightarrow> jsval option" where
  "sample_parse t = (if t = bad_file_body then Some (Obj [(''message'', Str ''Bad file'')]) else None)"

definition bad_request_response :: response where
  "bad_request_response =
     \<lparr>status = 400, statusText = ''Bad Request'', contentType = Some ''application/json'',
      body = Some bad_file_body\<rparr>"

definition bad_gateway_response :: response where
  "bad_gateway_response =
     \<lparr>status = 502, statusText = ''Bad Gateway'', contentType = Some ''text/html; charset=utf-8'',
      body = Some ''<html><body>502 Bad Gateway</body></html>''\<rparr>"

definition plain_text_response :: response where
  "plain_text_response =
     \<lparr>status = 200, statusText = ''OK'', contentType = Some ''text/plain'',
      body = Some ''upload complete''\<rparr>"

definition trades_csv :: file_handle where
  "trades_csv = \<lparr>name = ''trades.csv''\<rparr>"

definition second_csv :: file_handle where
  "second_csv = \<lparr>name = ''second.csv''\<rparr>"

definition success_payload :: jsval where
  "success_payload = Obj [(''success'', Bool True)]"

definition sample_results :: jsval where
  "sample_results =
     Obj [(''accuracy_rate'', Num (145 / 2)), (''total_signals'', Num 40),
          (''accurate_signals'', Num 29), (''long_accuracy'', Num 75),
          (''short_accuracy'', Num 68)]"

definition sample_signals :: jsval where
  "sample_signals =
     Arr [Obj [(''type'', Str ''LONG''), (''sr_confirmed'', Bool True)],
          Obj [(''type'', Str ''SHORT''), (''sr_confirmed'', Bool False)]]"

text \<open>Every call resolves.\<close>

definition api_all_ok :: api where
  "api_all_ok =
     \<lparr>uploadCSV = (\<lambda>_. Inr success_payload), processCSV = Inr success_payload,
      getResults = Inr sample_results, getSignals = Inr sample_signals\<rparr>"

text \<open>The signals fetch rejects after the results fetch has resolved.\<close>

definition api_signals_fail :: api where
  "api_signals_fail =
     \<lparr>uploadCSV = (\<lambda>_. Inr success_payload), processCSV = Inr success_payload,
      getResults = Inr sample_results,
      getSignals = Inl (Error (Str ''HTTP 500: Internal Server Error''))\<rparr>"

text \<open>The upload is answered with the 400 response above, passed through the resolver.\<close>

definition api_upload_rejected :: api where
  "api_upload_rejected =
     \<lparr>uploadCSV = (\<lambda>_. snd (handleResponse sample_parse bad_request_response)),
      processCSV = Inr success_payload,
      getResults = Inr sample_results, getSignals = Inr sample_signals\<rparr>"

definition alice_session :: auth where
  "alice_session = \<lparr>user = Str ''alice'', loading = False\<rparr>"

definition weekly_data :: jsval where
  "weekly_data =
     Obj [(''success'', Bool True),
          (''data'', Arr [Obj [(''sector'', Str ''A''), (''performance'', Num 10)],
                          Obj [(''sector'', Str ''B''), (''performance'', Num (- 5))]])]"

definition weekly_summary :: jsval where
  "weekly_summary =
     Obj [(''average_performance'', Num (5 / 2)), (''positive_sectors'', Num 1),
          (''negative_sectors'', Num 1)]"

definition entry_A :: sector_entry where
  "entry_A = \<lparr>sector = ''A'', performance = 10\<rparr>"

definition entry_B :: sector_entry where
  "entry_B = \<lparr>sector = ''B'', performance = - 5\<rparr>"

definition entry_flat :: sector_entry where
  "entry_flat = \<lparr>sector = ''A'', performance = 0\<rparr>"

section \<open>Properties of the response resolver\<close>

lemma string_of_nat_400: "string_of_nat 400 = ''400''"
  by (simp add: string_of_nat.simps digit_def)

lemma string_of_nat_502: "string_of_nat 502 = ''502''"
  by (simp add: string_of_nat.simps digit_def)

lemma bad_request_not_ok: "\<not> ok bad_request_response"
  by (simp add: ok_def bad_request_response_def)

lemma bad_request_not_markup: "\<not> contentType_includes bad_request_response ''text/html''"
  by (simp add: contentType_includes_def bad_request_response_def)

lemma bad_gateway_not_ok: "\<not> ok bad_gateway_response"
  by (simp add: ok_def bad_gateway_response_def)

lemma bad_gateway_markup: "contentType_includes bad_gateway_response ''text/html''"
  by (simp add: contentType_includes_def bad_gateway_response_def)

text \<open>The block of the inner \<open>try\<close> never completes normally: it always throws.\<close>

lemma error_payload_block_throws:
  "\<exists>e. snd (error_payload_block JSON_parse r evs) = Inl e"
  by (auto simp: error_payload_block_def response_json_def split: sum.splits option.splits)

text \<open>
  A successful response whose body is not JSON. With a null body the second read gives
  the empty text and the resolver throws its own error; with any other body the second
  read is rejected, and that TypeError is what the resolver throws.
\<close>

lemma handleResponse_ok_null_body:
  assumes "ok r" and "body r = None" and "JSON_parse [] = None"
  shows "snd (handleResponse JSON_parse r) = Inl (Error (Str ''Invalid JSON response: ...''))"
  using assms
  by (simp add: handleResponse_def response_json_def response_text_def consume_body_def Let_def)

lemma handleResponse_ok_unparsable_body:
  assumes "ok r" and "body r = Some b" and "JSON_parse b = None"
  shows "snd (handleResponse JSON_parse r) = Inl TypeError"
  using assms
  by (simp add: handleResponse_def response_json_def response_text_def consume_body_def Let_def)

lemma handleResponse_ok_parsed:
  assumes "ok r" and "body r = Some b" and "JSON_parse b = Some v"
  shows "snd (handleResponse JSON_parse r) = Inr v"
  using assms
  by (simp add: handleResponse_def response_json_def consume_body_def Let_def)

text \<open>
  C8. On a response whose status is outside 200..299 and whose content type contains
  \<open>text/html\<close>, the resolver throws an error whose message is \<open>Server error: \<close>, the
  status, a space and the status text, and it has read nothing of the body: neither
  \<open>json()\<close> nor \<open>text()\<close> was called. (The source has no error kinds; the error is
  told apart by its message.)
\<close>

theorem handleResponse_markup_error:
  assumes "\<not> ok r" and "contentType_includes r ''text/html''"
  shows "snd (handleResponse JSON_parse r) =
           Inl (Error (Str (''Server error: '' @ string_of_nat (status r) @ '' '' @ statusText r)))
         \<and> ReadJson \<notin> set (fst (handleResponse JSON_parse r))
         \<and> ReadText \<notin> set (fst (handleResponse JSON_parse r))"
  using assms by (simp add: handleResponse_def)

theorem handleResponse_markup_error_witness:
  "\<not> ok bad_gateway_response \<and> contentType_includes bad_gateway_response ''text/html''
   \<and> snd (handleResponse sample_parse bad_gateway_response) =
         Inl (Error (Str ''Server error: 502 Bad Gateway''))
   \<and> ReadJson \<notin> set (fst (handleResponse sample_parse bad_gateway_response))"
  using handleResponse_markup_error [OF bad_gateway_not_ok bad_gateway_markup, of sample_parse]
    bad_gateway_not_ok bad_gateway_markup
  by (simp add: string_of_nat_502 bad_gateway_response_def)

text \<open>
  C10. On a response whose status is outside 200..299 and whose content type does not
  contain \<open>text/html\<close>, the resolver throws an error whose message is exactly
  \<open>HTTP \<close>, the status, \<open>: \<close> and the status text, for every body and every decoding
  of it: whatever the block of the inner \<open>try\<close> throws, the application-level error
  included, is caught by the resolver's own \<open>catch\<close>.
\<close>

theorem handleResponse_not_ok_status_line:
  assumes "\<not> ok r" and "\<not> contentType_includes r ''text/html''"
  shows "snd (handleResponse JSON_parse r) =
           Inl (Error (Str (''HTTP '' @ string_of_nat (status r) @ '': '' @ statusText r)))"
proof -
  obtain e where "snd (error_payload_block JSON_parse r []) = Inl e"
    using error_payload_block_throws by blast
  with assms show ?thesis
    by (auto simp: handleResponse_def try_catch_def split: prod.splits)
qed

theorem handleResponse_not_ok_status_line_witness:
  "\<not> ok bad_request_response \<and> \<not> contentType_includes bad_request_response ''text/html''
   \<and> snd (handleResponse sample_parse bad_request_response) =
         Inl (Error (Str ''HTTP 400: Bad Request''))
   \<and> snd (handleResponse (\<lambda>t. None) bad_request_response) =
         Inl (Error (Str ''HTTP 400: Bad Request''))"
  using handleResponse_not_ok_status_line [OF bad_request_not_ok bad_request_not_markup, of sample_parse]
    handleResponse_not_ok_status_line [OF bad_request_not_ok bad_request_not_markup, of "\<lambda>t. None"]
    bad_request_not_ok bad_request_not_markup
  by (simp add: string_of_nat_400 bad_request_response_def)

text \<open>
  C2. The 400 response whose body decodes to an object with \<open>message = Bad file\<close>:
  the block of the inner \<open>try\<close> throws the error carrying \<open>Bad file\<close>, and the
  resolver throws the status line instead.
\<close>

theorem handleResponse_payload_message_lost:
  "snd (error_payload_block sample_parse bad_request_response []) = Inl (Error (Str ''Bad file''))
   \<and> snd (handleResponse sample_parse bad_request_response) =
         Inl (Error (Str ''HTTP 400: Bad Request''))"
  by (simp add: handleResponse_def error_payload_block_def response_json_def consume_body_def
      try_catch_def sample_parse_def bad_request_response_def ok_def contentType_includes_def
      string_of_nat_400)

text \<open>
  C6. The 200 response with the plain-text body \<open>upload complete\<close>: \<open>json()\<close> consumes
  the body and fails to decode it, the \<open>text()\<close> of the handler is rejected because the
  body has been read, and the resolver throws that TypeError, not the error with the
  truncated body.
\<close>

theorem handleResponse_unparsable_body_TypeError:
  "handleResponse sample_parse plain_text_response =
     ([Warn ''text/plain'', ReadJson, ReadText], Inl TypeError)
   \<and> snd (handleResponse sample_parse plain_text_response) \<noteq>
         Inl (Error (Str ''Invalid JSON response: upload complete...''))"
  by (simp add: handleResponse_def response_json_def response_text_def consume_body_def
      sample_parse_def plain_text_response_def ok_def bad_file_body_def dquote_def)

section \<open>Properties of the workflow coordinator\<close>

lemma handleProcess_fetch_rejected:
  assumes "reports_success (processCSV a)"
    and "\<not> resolved (getResults a) \<or> \<not> resolved (getSignals a)"
  shows "handleProcess a s =
           s\<lparr>processing := False,
              dashboard.error := Str ''An error occurred during processing''\<rparr>"
  using assms
  by (auto simp: handleProcess_def reports_success_def resolved_def Let_def split: sum.splits)

lemma handleProcess_error_falsy:
  assumes "\<not> truthy (dashboard.error (handleProcess a s))"
  shows "reports_success (processCSV a) \<and> resolved (getResults a) \<and> resolved (getSignals a)"
  using assms
  by (auto simp: handleProcess_def reports_success_def resolved_def Let_def js_or_def
      split: sum.splits if_splits)

lemma handleProcess_rejection_message:
  assumes "processCSV a = Inl e
           \<or> reports_success (processCSV a)
              \<and> (getResults a = Inl e \<or> resolved (getResults a) \<and> getSignals a = Inl e)"
  shows "handleProcess a s =
           s\<lparr>processing := False,
              dashboard.error := Str ''An error occurred during processing''\<rparr>"
  using assms
  by (auto simp: handleProcess_def Let_def reports_success_def resolved_def split: sum.splits)

lemma handleUpload_runs_handleProcess:
  assumes "file s = Some f" and "reports_success (uploadCSV a f)"
  shows "handleUpload a s =
           (handleProcess a (s\<lparr>dashboard.error := Str [], uploading := True\<rparr>))
             \<lparr>uploading := False\<rparr>"
  using assms
  by (auto simp: handleUpload_def reports_success_def Let_def split: sum.splits)

lemma handleUpload_not_success_error:
  assumes "file s = Some f" and "\<not> reports_success (uploadCSV a f)"
  shows "truthy (dashboard.error (handleUpload a s))"
  using assms
  by (auto simp: handleUpload_def reports_success_def Let_def js_or_def split: sum.splits)

lemma handleUpload_ready:
  assumes "stage_of (handleUpload a s) = Ready"
  shows "\<exists>f. file s = Some f \<and> reports_success (uploadCSV a f)
             \<and> reports_success (processCSV a)
             \<and> resolved (getResults a) \<and> resolved (getSignals a)"
proof (cases "file s")
  case None
  with assms show ?thesis
    by (auto simp: handleUpload_def stage_of_def split: if_splits)
next
  case (Some f)
  from assms have e: "\<not> truthy (dashboard.error (handleUpload a s))"
    by (simp add: stage_of_def split: if_splits)
  show ?thesis
  proof (cases "reports_success (uploadCSV a f)")
    case True
    from e have "\<not> truthy (dashboard.error
                   (handleProcess a (s\<lparr>dashboard.error := Str [], uploading := True\<rparr>)))"
      by (simp add: handleUpload_runs_handleProcess [OF Some True])
    from handleProcess_error_falsy [OF this] True Some show ?thesis by simp
  next
    case False
    from handleUpload_not_success_error [OF Some False] e show ?thesis by simp
  qed
qed

lemma handleUpload_fetch_rejected:
  assumes "file s = Some f" and "reports_success (uploadCSV a f)"
    and "reports_success (processCSV a)"
    and "\<not> resolved (getResults a) \<or> \<not> resolved (getSignals a)"
  shows "handleUpload a s =
           s\<lparr>uploading := False, processing := False,
              dashboard.error := Str ''An error occurred during processing''\<rparr>"
  by (simp add: handleUpload_runs_handleProcess [OF assms(1,2)]
      handleProcess_fetch_rejected [OF assms(3,4)])

text \<open>Evaluating the sample runs.\<close>

lemma trades_selected:
  "handleFileChange (Some trades_csv) dashboard_init =
     dashboard_init\<lparr>file := Some trades_csv, fileName := ''trades.csv''\<rparr>"
  by (simp add: handleFileChange_def trades_csv_def)

lemma sample_calls:
  "reports_success (Inr success_payload)" "resolved (Inr sample_results)"
  "resolved (Inr sample_signals)" "\<not> resolved (Inl e)" "\<not> reports_success (Inl e)"
  by (simp_all add: reports_success_def resolved_def success_payload_def)

lemma first_run_ok:
  "handleUpload api_all_ok (handleFileChange (Some trades_csv) dashboard_init) =
     dashboard_init\<lparr>file := Some trades_csv, fileName := ''trades.csv'',
       results := sample_results, signals := sample_signals,
       chartUrl := ''http://localhost:8000/chart-iframe''\<rparr>"
  by (simp add: handleFileChange_def trades_csv_def handleUpload_def handleProcess_def
      api_all_ok_def success_payload_def dashboard_init_def getChartIframe_def API_URL_def
      Let_def)

lemma truthy_sample_results: "truthy sample_results" "sample_results \<noteq> Null"
  by (simp_all add: sample_results_def)

text \<open>
  C1. A run of the workflow (\<open>handleUpload\<close>, which runs \<open>handleProcess\<close>) ends in
  the Ready stage only if a file was selected, the upload and the process call reported
  success and both the results fetch and the signals fetch resolved. If both calls
  reported success and either fetch rejects, the run ends in the Failed stage and
  \<open>results\<close>, \<open>signals\<close> and the chart reference are what they were before the run:
  nothing the failed run fetched is stored.
\<close>

theorem workflow_ready_needs_both_fetches:
  "(stage_of (handleUpload a s) = Ready \<longrightarrow>
      (\<exists>f. file s = Some f \<and> reports_success (uploadCSV a f))
      \<and> reports_success (processCSV a)
      \<and> resolved (getResults a) \<and> resolved (getSignals a))
   \<and> (file s = Some f \<and> reports_success (uploadCSV a f) \<and> reports_success (processCSV a)
        \<and> (\<not> resolved (getResults a) \<or> \<not> resolved (getSignals a)) \<longrightarrow>
      stage_of (handleUpload a s) = Failed
      \<and> results (handleUpload a s) = results s
      \<and> signals (handleUpload a s) = signals s
      \<and> chartUrl (handleUpload a s) = chartUrl s)"
proof (intro conjI impI)
  assume "stage_of (handleUpload a s) = Ready"
  from handleUpload_ready [OF this]
  show "\<exists>f. file s = Some f \<and> reports_success (uploadCSV a f)"
    and "reports_success (processCSV a)"
    and "resolved (getResults a)" and "resolved (getSignals a)"
    by auto
next
  assume h: "file s = Some f \<and> reports_success (uploadCSV a f) \<and> reports_success (processCSV a)
             \<and> (\<not> resolved (getResults a) \<or> \<not> resolved (getSignals a))"
  then have eq: "handleUpload a s =
                   s\<lparr>uploading := False, processing := False,
                      dashboard.error := Str ''An error occurred during processing''\<rparr>"
    by (intro handleUpload_fetch_rejected) auto
  show "stage_of (handleUpload a s) = Failed" by (simp add: eq stage_of_def)
  show "results (handleUpload a s) = results s" by (simp add: eq)
  show "signals (handleUpload a s) = signals s" by (simp add: eq)
  show "chartUrl (handleUpload a s) = chartUrl s" by (simp add: eq)
qed

theorem workflow_ready_needs_both_fetches_witness:
  "stage_of (handleUpload api_all_ok (handleFileChange (Some trades_csv) dashboard_init)) = Ready
   \<and> resolved (getResults api_all_ok) \<and> resolved (getSignals api_all_ok)
   \<and> \<not> resolved (getSignals api_signals_fail)
   \<and> stage_of (handleUpload api_signals_fail
                 (handleFileChange (Some trades_csv) dashboard_init)) = Failed
   \<and> results (handleUpload api_signals_fail
                 (handleFileChange (Some trades_csv) dashboard_init)) = Null"
proof -
  let ?s = "handleFileChange (Some trades_csv) dashboard_init"
  have ready: "stage_of (handleUpload api_all_ok ?s) = Ready"
    by (simp only: first_run_ok) (simp add: stage_of_def dashboard_init_def truthy_sample_results)
  have pre: "file ?s = Some trades_csv \<and> reports_success (uploadCSV api_signals_fail trades_csv)
             \<and> reports_success (processCSV api_signals_fail)
             \<and> (\<not> resolved (getResults api_signals_fail)
                 \<or> \<not> resolved (getSignals api_signals_fail))"
    by (simp only: trades_selected) (simp add: api_signals_fail_def sample_calls)
  have null: "results ?s = Null"
    by (simp only: trades_selected) (simp add: dashboard_init_def)
  from workflow_ready_needs_both_fetches [of api_all_ok ?s trades_csv] ready
  have ok: "resolved (getResults api_all_ok) \<and> resolved (getSignals api_all_ok)" by blast
  from workflow_ready_needs_both_fetches [of api_signals_fail ?s trades_csv] pre
  have failed: "stage_of (handleUpload api_signals_fail ?s) = Failed
                \<and> results (handleUpload api_signals_fail ?s) = results ?s" by blast
  show ?thesis using ready ok failed null
    by (simp add: api_signals_fail_def sample_calls)
qed

text \<open>
  The claim's \<open>results is null\<close> fails for a run that follows a successful one: the
  results of the earlier run are still in the state, next to the error.
\<close>

theorem workflow_failed_run_keeps_earlier_results:
  "stage_of (handleUpload api_signals_fail
              (handleUpload api_all_ok (handleFileChange (Some trades_csv) dashboard_init)))
     = Failed
   \<and> results (handleUpload api_signals_fail
                (handleUpload api_all_ok (handleFileChange (Some trades_csv) dashboard_init)))
       \<noteq> Null"
proof -
  let ?s = "handleUpload api_all_ok (handleFileChange (Some trades_csv) dashboard_init)"
  have pre: "file ?s = Some trades_csv" "reports_success (uploadCSV api_signals_fail trades_csv)"
    "reports_success (processCSV api_signals_fail)"
    "\<not> resolved (getResults api_signals_fail) \<or> \<not> resolved (getSignals api_signals_fail)"
    by (simp_all only: first_run_ok) (simp_all add: api_signals_fail_def sample_calls)
  have run: "handleUpload api_signals_fail ?s =
               ?s\<lparr>uploading := False, processing := False,
                  dashboard.error := Str ''An error occurred during processing''\<rparr>"
    by (rule handleUpload_fetch_rejected [OF pre])
  have kept: "results ?s = sample_results"
    by (simp only: first_run_ok) simp
  show ?thesis
    by (simp add: run kept stage_of_def truthy_sample_results)
qed

text \<open>
  C9. When a call of the transport client rejects, the message the workflow shows is a
  fixed string of the step that caught it (\<open>An error occurred during upload\<close> or
  \<open>An error occurred during processing\<close>), whatever error the call was rejected
  with; the missing-file check also sets a fixed message.
\<close>

theorem workflow_rejection_fixed_message:
  "(file s = None \<longrightarrow>
      dashboard.error (handleUpload a s) = Str ''Please select a file to upload'')
   \<and> (file s = Some f \<and> uploadCSV a f = Inl e \<longrightarrow>
        dashboard.error (handleUpload a s) = Str ''An error occurred during upload'')
   \<and> (file s = Some f \<and> reports_success (uploadCSV a f)
        \<and> (processCSV a = Inl e
            \<or> reports_success (processCSV a)
               \<and> (getResults a = Inl e \<or> resolved (getResults a) \<and> getSignals a = Inl e)) \<longrightarrow>
        dashboard.error (handleUpload a s) = Str ''An error occurred during processing'')"
proof (intro conjI impI)
  assume "file s = None"
  then show "dashboard.error (handleUpload a s) = Str ''Please select a file to upload''"
    by (simp add: handleUpload_def)
next
  assume "file s = Some f \<and> uploadCSV a f = Inl e"
  then show "dashboard.error (handleUpload a s) = Str ''An error occurred during upload''"
    by (simp add: handleUpload_def Let_def)
next
  assume h: "file s = Some f \<and> reports_success (uploadCSV a f)
             \<and> (processCSV a = Inl e
                 \<or> reports_success (processCSV a)
                    \<and> (getResults a = Inl e \<or> resolved (getResults a) \<and> getSignals a = Inl e))"
  then have run: "handleUpload a s =
                    (handleProcess a (s\<lparr>dashboard.error := Str [], uploading := True\<rparr>))
                      \<lparr>uploading := False\<rparr>"
    by (intro handleUpload_runs_handleProcess) auto
  from h have "processCSV a = Inl e
               \<or> reports_success (processCSV a)
                  \<and> (getResults a = Inl e \<or> resolved (getResults a) \<and> getSignals a = Inl e)"
    by blast
  from handleProcess_rejection_message [OF this]
  show "dashboard.error (handleUpload a s) = Str ''An error occurred during processing''"
    by (simp add: run)
qed

lemma upload_rejected_outcome:
  "uploadCSV api_upload_rejected f = Inl (Error (Str ''HTTP 400: Bad Request''))"
  by (simp add: api_upload_rejected_def handleResponse_def error_payload_block_def
      response_json_def consume_body_def try_catch_def sample_parse_def
      bad_request_response_def ok_def contentType_includes_def string_of_nat_400)

theorem workflow_rejection_fixed_message_witness:
  "dashboard.error (handleUpload api_all_ok dashboard_init) = Str ''Please select a file to upload''
   \<and> dashboard.error (handleUpload api_upload_rejected
                         (handleFileChange (Some trades_csv) dashboard_init))
       = Str ''An error occurred during upload''
   \<and> dashboard.error (handleUpload api_signals_fail
                         (handleFileChange (Some trades_csv) dashboard_init))
       = Str ''An error occurred during processing''"
proof -
  let ?s = "handleFileChange (Some trades_csv) dashboard_init"
  let ?e = "Error (Str ''HTTP 400: Bad Request'')"
  let ?e' = "Error (Str ''HTTP 500: Internal Server Error'')"
  have none: "file dashboard_init = None"
    by (simp add: dashboard_init_def)
  have sel: "file ?s = Some trades_csv"
    by (simp only: trades_selected) simp
  have up: "file ?s = Some trades_csv \<and> uploadCSV api_upload_rejected trades_csv = Inl ?e"
    using sel upload_rejected_outcome by simp
  have pr: "file ?s = Some trades_csv \<and> reports_success (uploadCSV api_signals_fail trades_csv)
            \<and> (processCSV api_signals_fail = Inl ?e'
                \<or> reports_success (processCSV api_signals_fail)
                   \<and> (getResults api_signals_fail = Inl ?e'
                       \<or> resolved (getResults api_signals_fail)
                          \<and> getSignals api_signals_fail = Inl ?e'))"
    using sel by (simp add: api_signals_fail_def sample_calls)
  from workflow_rejection_fixed_message [of dashboard_init api_all_ok trades_csv ?e] none
  have a: "dashboard.error (handleUpload api_all_ok dashboard_init)
             = Str ''Please select a file to upload''" by blast
  from workflow_rejection_fixed_message [of ?s api_upload_rejected trades_csv ?e] up
  have b: "dashboard.error (handleUpload api_upload_rejected ?s)
             = Str ''An error occurred during upload''" by blast
  from workflow_rejection_fixed_message [of ?s api_signals_fail trades_csv ?e'] pr
  have c: "dashboard.error (handleUpload api_signals_fail ?s)
             = Str ''An error occurred during processing''" by blast
  from a b c show ?thesis by blast
qed

text \<open>
  The upload answered with the 400 response: the resolver rejects with the message
  \<open>HTTP 400: Bad Request\<close>, and the workflow shows its own fixed string, not that
  message.
\<close>

theorem workflow_rejection_message_not_shown:
  "uploadCSV api_upload_rejected trades_csv = Inl (Error (Str ''HTTP 400: Bad Request''))
   \<and> dashboard.error (handleUpload api_upload_rejected
                         (handleFileChange (Some trades_csv) dashboard_init))
       = Str ''An error occurred during upload''
   \<and> dashboard.error (handleUpload api_upload_rejected
                         (handleFileChange (Some trades_csv) dashboard_init))
       \<noteq> Str ''HTTP 400: Bad Request''"
proof -
  let ?s = "handleFileChange (Some trades_csv) dashboard_init"
  have sel: "file ?s = Some trades_csv"
    by (simp only: trades_selected) simp
  have "dashboard.error (handleUpload api_upload_rejected ?s)
          = Str ''An error occurred during upload''"
    using sel upload_rejected_outcome [of trades_csv] by (simp add: handleUpload_def Let_def)
  then show ?thesis using upload_rejected_outcome [of trades_csv] by simp
qed

text \<open>
  C4. Selecting a file replaces the selected file and the name shown, and nothing else:
  the flags, the error, the results, the signals and the chart reference are what they
  were, so the stage shown does not change. Selecting nothing changes nothing.
\<close>

theorem handleFileChange_keeps_run:
  "file (handleFileChange (Some f) s) = Some f
   \<and> fileName (handleFileChange (Some f) s) = name f
   \<and> results (handleFileChange (Some f) s) = results s
   \<and> signals (handleFileChange (Some f) s) = signals s
   \<and> chartUrl (handleFileChange (Some f) s) = chartUrl s
   \<and> dashboard.error (handleFileChange (Some f) s) = dashboard.error s
   \<and> uploading (handleFileChange (Some f) s) = uploading s
   \<and> processing (handleFileChange (Some f) s) = processing s
   \<and> stage_of (handleFileChange (Some f) s) = stage_of s
   \<and> handleFileChange None s = s"
  by (simp add: handleFileChange_def stage_of_def)

theorem handleFileChange_keeps_run_witness:
  "file (handleFileChange (Some second_csv)
           (handleUpload api_all_ok (handleFileChange (Some trades_csv) dashboard_init)))
     = Some second_csv
   \<and> results (handleFileChange (Some second_csv)
                (handleUpload api_all_ok (handleFileChange (Some trades_csv) dashboard_init)))
       = sample_results"
proof -
  let ?s = "handleUpload api_all_ok (handleFileChange (Some trades_csv) dashboard_init)"
  have kept: "results ?s = sample_results"
    by (simp only: first_run_ok) simp
  from handleFileChange_keeps_run [of second_csv ?s] kept show ?thesis by simp
qed

text \<open>
  After a run that ended in Ready, selecting another file leaves the stage Ready and the
  results in place: there is no reset to Idle.
\<close>

theorem handleFileChange_no_reset:
  "stage_of (handleUpload api_all_ok (handleFileChange (Some trades_csv) dashboard_init)) = Ready
   \<and> stage_of (handleFileChange (Some second_csv)
                 (handleUpload api_all_ok (handleFileChange (Some trades_csv) dashboard_init)))
       \<noteq> Idle
   \<and> results (handleFileChange (Some second_csv)
                (handleUpload api_all_ok (handleFileChange (Some trades_csv) dashboard_init)))
       \<noteq> Null"
  by (simp only: first_run_ok)
    (simp add: handleFileChange_def stage_of_def dashboard_init_def truthy_sample_results)

section \<open>Properties of the session store\<close>

text \<open>
  C3. \<open>logout\<close> clears the current user and returns true exactly when the underlying
  call resolves; when the call rejects, the state is left as it was and \<open>logout\<close>
  returns false.
\<close>

theorem logout_clears_user_when_resolved:
  "fst (logout c s) = (if resolved c then s\<lparr>user := Null\<rparr> else s)
   \<and> snd (logout c s) = resolved c"
  by (simp add: logout_def resolved_def split: sum.splits)

theorem logout_clears_user_when_resolved_witness:
  "user (fst (logout (Inr success_payload) alice_session)) = Null
   \<and> snd (logout (Inr success_payload) alice_session)
   \<and> fst (logout (Inl TypeError) alice_session) = alice_session
   \<and> \<not> snd (logout (Inl TypeError) alice_session)"
  using logout_clears_user_when_resolved [of "Inr success_payload" alice_session]
    logout_clears_user_when_resolved [of "Inl TypeError" alice_session]
  by (simp add: resolved_def)

text \<open>
  A transport failure during logout (\<open>fetch\<close> rejects with a TypeError): the user is
  still \<open>alice\<close> afterwards.
\<close>

theorem logout_rejected_keeps_user:
  "user (fst (logout (Inl TypeError) alice_session)) = Str ''alice''
   \<and> user (fst (logout (Inl TypeError) alice_session)) \<noteq> Null"
  by (simp add: logout_def alice_session_def)

section \<open>Properties of the sector aggregator\<close>

lemma fetchData_rejected:
  assumes "\<not> resolved dataCall \<or> \<not> resolved summaryCall"
  shows "fetchData dataCall summaryCall s =
           s\<lparr>loading := False, error := Str ''Failed to fetch sector data''\<rparr>"
  using assms
  by (auto simp: fetchData_def resolved_def Let_def split: sum.splits)

lemma weekly_fetch:
  "fetchData (Inr weekly_data) (Inr weekly_summary) (handlePeriodChange ''7d'' sector_panel_init) =
     \<lparr>period = ''7d'',
      sectorData = Arr [Obj [(''sector'', Str ''A''), (''performance'', Num 10)],
                        Obj [(''sector'', Str ''B''), (''performance'', Num (- 5))]],
      summary = weekly_summary, loading = False, error = Str []\<rparr>"
  by (simp add: fetchData_def handlePeriodChange_def sector_panel_init_def weekly_data_def
      weekly_summary_def Let_def)

text \<open>
  C5. When either of the two sector fetches rejects, \<open>fetchData\<close> sets the error
  message \<open>Failed to fetch sector data\<close> and ends the loading state; the entries and the
  summary are what they were before the fetch, so the data of the period fetched before
  stays next to the error.
\<close>

theorem fetchData_rejected_keeps_data:
  assumes "\<not> resolved dataCall \<or> \<not> resolved summaryCall"
  shows "sector_panel.error (fetchData dataCall summaryCall s) = Str ''Failed to fetch sector data''
         \<and> \<not> sector_panel.loading (fetchData dataCall summaryCall s)
         \<and> sectorData (fetchData dataCall summaryCall s) = sectorData s
         \<and> summary (fetchData dataCall summaryCall s) = summary s
         \<and> period (fetchData dataCall summaryCall s) = period s"
  by (simp add: fetchData_rejected [OF assms])

theorem fetchData_rejected_keeps_data_witness:
  "\<not> resolved (Inl TypeError)
   \<and> sector_panel.error (fetchData (Inl TypeError) (Inr weekly_summary) sector_panel_init)
       = Str ''Failed to fetch sector data''
   \<and> sectorData (fetchData (Inl TypeError) (Inr weekly_summary) sector_panel_init) = Arr []
   \<and> summary (fetchData (Inl TypeError) (Inr weekly_summary) sector_panel_init) = Null"
proof -
  have h: "\<not> resolved (Inl TypeError) \<or> \<not> resolved (Inr weekly_summary)"
    by (simp add: resolved_def)
  have r: "\<not> resolved (Inl TypeError)"
    by (simp add: resolved_def)
  from fetchData_rejected_keeps_data [OF h, of sector_panel_init] r
  show ?thesis by (simp add: sector_panel_init_def)
qed

text \<open>
  The weekly fetch succeeds, the period changes to \<open>1d\<close> and the series fetch of that
  period rejects: the error is set, and the weekly entries and summary are still there.
\<close>

theorem fetchData_rejected_stale_data:
  "sector_panel.error
     (fetchData (Inl TypeError) (Inr weekly_summary)
        (handlePeriodChange ''1d''
           (fetchData (Inr weekly_data) (Inr weekly_summary)
              (handlePeriodChange ''7d'' sector_panel_init))))
     = Str ''Failed to fetch sector data''
   \<and> sectorData
       (fetchData (Inl TypeError) (Inr weekly_summary)
          (handlePeriodChange ''1d''
             (fetchData (Inr weekly_data) (Inr weekly_summary)
                (handlePeriodChange ''7d'' sector_panel_init))))
       \<noteq> Arr []
   \<and> summary
       (fetchData (Inl TypeError) (Inr weekly_summary)
          (handlePeriodChange ''1d''
             (fetchData (Inr weekly_data) (Inr weekly_summary)
                (handlePeriodChange ''7d'' sector_panel_init))))
       \<noteq> Null"
proof -
  have h: "\<not> resolved (Inl TypeError) \<or> \<not> resolved (Inr weekly_summary)"
    by (simp add: resolved_def)
  show ?thesis
    by (simp only: fetchData_rejected [OF h] weekly_fetch)
      (simp add: handlePeriodChange_def weekly_summary_def)
qed

text \<open>
  The scaling of the bars. \<open>Math.max\<close> over the absolute performances of a non-empty
  series is their maximum.
\<close>

lemma Max_insert_max:
  fixes a b :: rat
  assumes "finite S"
  shows "Max (insert (max a b) S) = Max (insert a (insert b S))"
proof (cases "S = {}")
  case True
  then show ?thesis by simp
next
  case False
  with assms show ?thesis by (simp add: max.assoc)
qed

lemma foldl_max2_Fin:
  "foldl max2 (Fin a) (map (\<lambda>item. Fin \<bar>performance item\<bar>) es)
     = Fin (Max (insert a ((\<lambda>item. \<bar>performance item\<bar>) ` set es)))"
proof (induction es arbitrary: a)
  case Nil
  show ?case by simp
next
  case (Cons e es)
  show ?case by (simp add: Cons.IH Max_insert_max)
qed

lemma maxPerformance_eq_Max:
  assumes "entries \<noteq> []"
  shows "maxPerformance entries = Fin (Max ((\<lambda>item. \<bar>performance item\<bar>) ` set entries))"
proof -
  from assms obtain e es where es: "entries = e # es" by (cases entries) auto
  have "maxPerformance entries =
          foldl max2 (Fin \<bar>performance e\<bar>) (map (\<lambda>item. Fin \<bar>performance item\<bar>) es)"
    by (simp add: es maxPerformance_def Math_max_def)
  also have "\<dots> = Fin (Max (insert \<bar>performance e\<bar> ((\<lambda>item. \<bar>performance item\<bar>) ` set es)))"
    by (rule foldl_max2_Fin)
  finally show ?thesis by (simp add: es)
qed

lemma maxPerformance_empty: "maxPerformance [] = Fin 5"
  by (simp add: maxPerformance_def)

text \<open>
  Where some entry has a performance other than zero, the width of each bar is its
  absolute performance over the maximum, times 100, which is at most 100; the bar is
  right-aligned exactly when the performance is negative.
\<close>

lemma bar_width_scaled:
  assumes "item \<in> set entries"
    and "0 < Max ((\<lambda>item. \<bar>performance item\<bar>) ` set entries)"
  shows "bar_width entries item =
           Fin (\<bar>performance item\<bar> / Max ((\<lambda>item. \<bar>performance item\<bar>) ` set entries) * 100)
         \<and> \<bar>performance item\<bar> / Max ((\<lambda>item. \<bar>performance item\<bar>) ` set entries) * 100 \<le> 100"
proof -
  define M where "M = Max ((\<lambda>item. \<bar>performance item\<bar>) ` set entries)"
  from assms(1) have ne: "entries \<noteq> []" by auto
  have le: "\<bar>performance item\<bar> \<le> M"
    unfolding M_def using assms(1) by (intro Max_ge) auto
  have pos: "0 < M" using assms(2) by (simp add: M_def)
  from le pos have b: "\<bar>performance item\<bar> / M * 100 \<le> 100" by (simp add: field_simps)
  have "maxPerformance entries = Fin M"
    unfolding M_def by (rule maxPerformance_eq_Max [OF ne])
  then have "bar_width entries item = Fin (\<bar>performance item\<bar> / M * 100)"
    using b pos by (simp add: bar_width_def min_def)
  with b show ?thesis by (simp add: M_def)
qed

lemma bar_right_aligned: "(bar_marginLeft item = ''auto'') = (performance item < 0)"
  by (simp add: bar_marginLeft_def)

lemma bars_of_the_example:
  "maxPerformance [entry_A, entry_B] = Fin 10"
  "bar_width [entry_A, entry_B] entry_A = Fin 100"
  "bar_width [entry_A, entry_B] entry_B = Fin 50"
  "bar_marginLeft entry_A = ''0''"
  "bar_marginLeft entry_B = ''auto''"
  by (simp_all add: bar_width_def maxPerformance_def Math_max_def bar_marginLeft_def
      entry_A_def entry_B_def)

text \<open>
  C7. A series whose only entry has performance 0: the list is not empty, so the default
  divisor is not used, the maximum is 0, and the width is 0 / 0 * 100, which is NaN, not
  a percentage of at most 100.
\<close>

theorem bar_width_all_zero_NaN:
  "maxPerformance [entry_flat] = Fin 0
   \<and> bar_width [entry_flat] entry_flat = NaN
   \<and> bar_width [entry_flat] entry_flat \<noteq> Fin 0"
  by (simp add: bar_width_def maxPerformance_def Math_max_def entry_flat_def)

end
